theory Spec2Isabelle
  imports Complex_Main "HOL-Library.Sublist"
begin

section \<open>Octave-spaced averaging factors in the drivers\<close>

text \<open>
  Python exceptions that the modelled scripts can raise.
\<close>

datatype py_error = ValueError | IndexError

text \<open>
  \<^verbatim>\<open>benchmark_allantools\<close> (tests/benchmark_vs_allantools.py, lines 31-38) and
  \<^verbatim>\<open>benchmark_function\<close> (tests/mega_benchmark_python.py, lines 48-55) build the
  list of averaging factors with the same loop:
  \<^verbatim>\<open>
    max_m = N // 4
    m_list = []
    m = 1
    while m <= max_m and len(m_list) < max_tau_points:
        m_list.append(m)
        m *= 2
  \<close>
  The loop state is the pair \<open>(m, m_list)\<close>. The second conjunct of the loop test bounds
  the number of iterations for every starting state.
\<close>

function m_list_loop :: "int \<Rightarrow> int \<Rightarrow> int \<Rightarrow> int list \<Rightarrow> int list" where
  "m_list_loop max_m max_tau_points m m_list =
     (if m \<le> max_m \<and> int (length m_list) < max_tau_points
      then m_list_loop max_m max_tau_points (m * 2) (m_list @ [m])
      else m_list)"
  by pat_completeness auto
termination
  by (relation "measure (\<lambda>(max_m, max_tau_points, m, m_list).
        nat (max_tau_points - int (length m_list)))") auto

declare m_list_loop.simps [simp del]

definition benchmark_m_list :: "int \<Rightarrow> int \<Rightarrow> int list" where
  "benchmark_m_list N max_tau_points = m_list_loop (N div 4) max_tau_points 1 []"

text \<open>\<^verbatim>\<open>benchmark_allantools\<close> takes \<open>N = len(phase_data)\<close>.\<close>

definition benchmark_allantools_m_list :: "'a list \<Rightarrow> int \<Rightarrow> int list" where
  "benchmark_allantools_m_list phase_data max_tau_points =
     benchmark_m_list (int (length phase_data)) max_tau_points"

text \<open>
  \<^verbatim>\<open>benchmark_function\<close> takes \<open>N = len(datasets[0])\<close>, which raises IndexError on an
  empty list of datasets.
\<close>

definition benchmark_function_m_list :: "'a list list \<Rightarrow> int \<Rightarrow> py_error + int list" where
  "benchmark_function_m_list datasets max_tau_points =
     (case datasets of
        [] \<Rightarrow> Inl IndexError
      | d # _ \<Rightarrow> Inr (benchmark_m_list (int (length d)) max_tau_points))"

text \<open>
  The reference generators for the rubidium data sets
  (validation/generate\_allantools\_6krb25apr.py, lines 31-36, and
  validation/generate\_allantools\_6krbsnip.py, lines 32-37) use the loop without a cap on
  the number of entries:
  \<^verbatim>\<open>
    max_m = N // 10
    m_values = []
    m = 1
    while m <= max_m:
        m_values.append(m)
        m *= 2
  \<close>
  Nothing in the loop test bounds the iterations when \<open>m \<le> 0\<close>, so the loop is a partial
  function: \<open>None\<close> stands for a run that never leaves the loop.
\<close>

partial_function (option) m_values_loop :: "int \<Rightarrow> int \<Rightarrow> int list \<Rightarrow> int list option" where
  "m_values_loop max_m m m_values =
     (if m \<le> max_m then m_values_loop max_m (m * 2) (m_values @ [m]) else Some m_values)"

declare m_values_loop.simps [code]

definition octave_m_values :: "int \<Rightarrow> int list option" where
  "octave_m_values N = m_values_loop (N div 10) 1 []"

text \<open>
  Modelled from the spec: the sequence of the \<open>octave\<close> strategy (section 4.1),
  "m = 1, 2, 4, 8, \<dots> while m \<le> max\_m", from any positive starting value. The
  generator of the engine is not among the Python drivers; the drivers' own loops above
  are shown below to append exactly this sequence.
\<close>

function octave_from :: "int \<Rightarrow> int \<Rightarrow> int list" where
  "octave_from max_m m =
     (if 0 < m \<and> m \<le> max_m then m # octave_from max_m (m * 2) else [])"
  by pat_completeness auto
termination
  by (relation "measure (\<lambda>(max_m, m). nat (max_m + 1 - m))") auto

declare octave_from.simps [simp del]

section \<open>Tau sets requested by the reference generators\<close>




text \<open>
  \<^verbatim>\<open>compute_allantools_deviations\<close> of validation/generate\_allantools\_reference.py calls
  nine library estimators in a fixed order, each inside its own \<^verbatim>\<open>try\<close>. The model records
  which tau array each call receives. The array \<open>taus\<close> itself is what numpy returns for
  \<^verbatim>\<open>np.unique(tau0 * np.logspace(0, np.log10(max_tau), 20, dtype=int))\<close>; it is a parameter
  here. Line 98: \<^verbatim>\<open>tie_taus = taus[taus <= 50]\<close>.
\<close>

definition tie_taus :: "real list \<Rightarrow> real list" where
  "tie_taus taus = filter (\<lambda>t. t \<le> 50) taus"

definition compute_allantools_deviations_reference :: "real list \<Rightarrow> (string \<times> real list) list" where
  "compute_allantools_deviations_reference taus =
     [(''adev'', taus), (''mdev'', taus), (''tdev'', taus), (''hdev'', taus),
      (''totdev'', taus), (''mtotdev'', taus),
      (''tie'', tie_taus taus), (''mtie'', tie_taus taus),
      (''pdev'', taus)]"

text \<open>
  \<^verbatim>\<open>compute_allantools_deviations\<close> of validation/generate\_real\_data\_reference.py,
  lines 56-89:
  \<^verbatim>\<open>
    max_tau = min(N // 20, 1000)
    ...
    if hasattr(allantools, 'tie'):  allantools_functions.append(('tie', ...))
    if hasattr(allantools, 'mtie'): allantools_functions.append(('mtie', ...))
    for func_name, func, description in allantools_functions:
        if func_name in ['tie', 'mtie']:
            test_taus = taus[taus <= min(100, max_tau//2)]
        else:
            test_taus = taus
  \<close>
  Whether the library has \<^verbatim>\<open>tie\<close> and \<^verbatim>\<open>mtie\<close> is a pair of parameters.
\<close>

definition max_tau :: "int \<Rightarrow> int" where
  "max_tau N = min (N div 20) 1000"

definition allantools_functions :: "bool \<Rightarrow> bool \<Rightarrow> string list" where
  "allantools_functions has_tie has_mtie =
     [''adev'', ''mdev'', ''tdev'', ''hdev'', ''totdev'', ''mtotdev'', ''pdev'']
     @ (if has_tie then [''tie''] else [])
     @ (if has_mtie then [''mtie''] else [])"

definition test_taus :: "string \<Rightarrow> real list \<Rightarrow> int \<Rightarrow> real list" where
  "test_taus func_name taus N =
     (if func_name \<in> set [''tie'', ''mtie'']
      then filter (\<lambda>t. t \<le> real_of_int (min 100 (max_tau N div 2))) taus
      else taus)"

definition compute_allantools_deviations_real_data ::
  "bool \<Rightarrow> bool \<Rightarrow> real list \<Rightarrow> int \<Rightarrow> (string \<times> real list) list" where
  "compute_allantools_deviations_real_data has_tie has_mtie taus N =
     map (\<lambda>func_name. (func_name, test_taus func_name taus N))
       (allantools_functions has_tie has_mtie)"

text \<open>The two estimators whose requests are restricted.\<close>

definition is_tie :: "string \<Rightarrow> bool" where
  "is_tie func_name = (func_name = ''tie'' \<or> func_name = ''mtie'')"

section \<open>The phase-data file loader\<close>

text \<open>
  \<^verbatim>\<open>load_phase_data\<close> (validation/generate\_real\_data\_reference.py, lines 14-47) reads the
  lines of a text file and parses them:
  \<^verbatim>\<open>
    phase_data = []
    for line in lines:
        line = line.strip()
        if line and not line.startswith('#') and not line.startswith('%'):
            try:
                value = float(line.split()[0])
                phase_data.append(value)
            except (ValueError, IndexError):
                continue
    if not phase_data:
        raise ValueError(f"No valid data found in {filepath}")
  \<close>
  The model starts from the list \<open>lines\<close> that \<^verbatim>\<open>readlines\<close> returns; opening,
  decompressing and decoding the file are outside it. Characters are the
  code points below 256; \<open>isspace\<close> holds of those that \<^verbatim>\<open>str.strip\<close> and \<^verbatim>\<open>str.split\<close>
  treat as whitespace: tab, line feed, vertical tab, form feed, carriage return, the four
  separators \<open>0x1C\<close> to \<open>0x1F\<close>, space, \<open>0x85\<close> and \<open>0xA0\<close>.
\<close>

definition isspace :: "char \<Rightarrow> bool" where
  "isspace c = (of_char c \<in> {9, 10, 11, 12, 13, 28, 29, 30, 31, 32, 133, 160 :: nat})"

definition strip :: "string \<Rightarrow> string" where
  "strip s = rev (dropWhile isspace (rev (dropWhile isspace s)))"

definition startswith :: "string \<Rightarrow> string \<Rightarrow> bool" where
  "startswith s p = (take (length p) s = p)"

text \<open>\<^verbatim>\<open>str.split()\<close> without arguments: the maximal runs of non-whitespace characters.\<close>

function split_ws :: "string \<Rightarrow> string list" where
  "split_ws s =
     (case dropWhile isspace s of
        [] \<Rightarrow> []
      | c # cs \<Rightarrow> takeWhile (\<lambda>x. \<not> isspace x) (c # cs)
                   # split_ws (dropWhile (\<lambda>x. \<not> isspace x) (c # cs)))"
  by pat_completeness auto
termination
proof (relation "measure length")
  show "wf (measure length)" by simp
next
  fix s :: string and c cs
  assume a: "dropWhile isspace s = c # cs"
  then have "\<not> isspace c"
    by (simp add: dropWhile_eq_Cons_conv)
  then have "length (dropWhile (\<lambda>x. \<not> isspace x) (c # cs)) \<le> length cs"
    by (simp add: length_dropWhile_le)
  moreover have "length (c # cs) \<le> length s"
    using a length_dropWhile_le [of isspace s] by simp
  ultimately show "(dropWhile (\<lambda>x. \<not> isspace x) (c # cs), s) \<in> measure length"
    by simp
qed

declare split_ws.simps [simp del]

text \<open>
  One iteration of the loop. \<^verbatim>\<open>float\<close> is the parameter \<open>py_float\<close>, with \<open>None\<close> for a
  ValueError. \<^verbatim>\<open>line.split()[0]\<close> raises IndexError on an empty list; both exceptions are
  caught and the line is skipped.
\<close>

definition load_step :: "(string \<Rightarrow> 'v option) \<Rightarrow> 'v list \<Rightarrow> string \<Rightarrow> 'v list" where
  "load_step py_float phase_data line0 =
     (let line = strip line0 in
      if line \<noteq> [] \<and> \<not> startswith line ''#'' \<and> \<not> startswith line ''%'' then
        (case split_ws line of
           [] \<Rightarrow> phase_data
         | col # _ \<Rightarrow>
             (case py_float col of
                None \<Rightarrow> phase_data
              | Some v \<Rightarrow> phase_data @ [v]))
      else phase_data)"

definition load_phase_data :: "(string \<Rightarrow> 'v option) \<Rightarrow> string list \<Rightarrow> py_error + 'v list" where
  "load_phase_data py_float lines =
     (let phase_data = foldl (load_step py_float) [] lines
      in if phase_data = [] then Inl ValueError else Inr phase_data)"

text \<open>
  The loader as the specification describes it, line by line: a blank line (whitespace
  only) and a comment line (first visible character \<open>#\<close> or \<open>%\<close>) give nothing; any other
  line gives the value of its first whitespace-separated column, if that parses.
\<close>

definition spec_is_blank :: "string \<Rightarrow> bool" where
  "spec_is_blank l = (\<forall>c \<in> set l. isspace c)"

definition spec_is_comment :: "string \<Rightarrow> bool" where
  "spec_is_comment l =
     (case dropWhile isspace l of [] \<Rightarrow> False | c # _ \<Rightarrow> c = CHR ''#'' \<or> c = CHR ''%'')"

definition spec_first_column :: "string \<Rightarrow> string" where
  "spec_first_column l = takeWhile (\<lambda>x. \<not> isspace x) (dropWhile isspace l)"

definition spec_line_value :: "(string \<Rightarrow> 'v option) \<Rightarrow> string \<Rightarrow> 'v option" where
  "spec_line_value py_float l =
     (if spec_is_blank l \<or> spec_is_comment l then None else py_float (spec_first_column l))"

section \<open>The statistics engine, as specified\<close>

text \<open>
  Modelled from the spec: the engine's Tau Generator (section 4.1), which is not among the
  Python drivers. A strategy is \<open>all\<close>, \<open>octave\<close> or \<open>decade\<close> with the fraction of \<open>N\<close>
  that caps the averaging factor, or an explicit list.
\<close>

datatype strategy = All | Octave real | Decade real | Explicit "int list"

text \<open>
  Modelled from the spec: "max\_m chosen conservatively as a configurable fraction of N";
  the cap is the integer part of \<open>fraction * N\<close>.
\<close>

definition max_m_of :: "real \<Rightarrow> int \<Rightarrow> int" where
  "max_m_of fraction N = \<lfloor>fraction * real_of_int N\<rfloor>"

text \<open>
  Modelled from the spec: the \<open>decade\<close> strategy's averaging factors, "powers of 10 with
  sub-decade multipliers (1, 2, 5) x 10^k".
\<close>

function decade_form :: "int \<Rightarrow> bool" where
  "decade_form m =
     (if m = 1 \<or> m = 2 \<or> m = 5 then True
      else if 10 \<le> m \<and> m mod 10 = 0 then decade_form (m div 10)
      else False)"
  by pat_completeness auto
termination
  by (relation "measure nat") auto

declare decade_form.simps [simp del]

text \<open>
  Modelled from the spec: \<open>generate(N, strategy) -> TauSet\<close> of section 4.1. \<open>all\<close> is
  every \<open>m\<close> from 1 to \<open>N/2\<close>; \<open>octave\<close> is \<open>m = 1, 2, 4, 8, \<dots>\<close> while \<open>m \<le> max_m\<close>;
  \<open>decade\<close> is capped in the same way; an explicit list is deduplicated and sorted and not
  otherwise validated. "Failure: if N < 4, returns an empty TauSet": the specification
  states this rule for the generator as a whole. The lists that the Python generators build
  themselves with \<^verbatim>\<open>np.unique\<close> do not pass through this function; they are
  \<open>taus_reference\<close> and \<open>taus_real_data\<close> above.
\<close>

definition generate :: "int \<Rightarrow> strategy \<Rightarrow> int list" where
  "generate N strategy =
     (if N < 4 then []
      else (case strategy of
              All \<Rightarrow> [1..N div 2]
            | Octave fraction \<Rightarrow> octave_from (max_m_of fraction N) 1
            | Decade fraction \<Rightarrow> filter decade_form [1..max_m_of fraction N]
            | Explicit ms \<Rightarrow> sort (remdups ms)))"

text \<open>
  Modelled from the spec: the estimators of section 4.3 for which the specification states
  both a sample count and a requirement on \<open>N\<close> and \<open>m\<close>: overlapping ADEV, MDEV,
  overlapping HDEV, and TDEV, which inherits MDEV's. For TOTDEV, MTOTDEV, PDEV, TIE and
  MTIE the specification gives no closed-form sample count.
\<close>

datatype estimator_kind = ADEV | MDEV | HDEV | TDEV

text \<open>
  Modelled from the spec: the sample count of each estimator, the divisor of its formula
  in section 4.3 (ADEV: \<open>N - 2m\<close>; MDEV: \<open>N - 3m + 1\<close>; HDEV: \<open>N - 3m\<close>; TDEV as MDEV).
\<close>

fun sample_count :: "estimator_kind \<Rightarrow> int \<Rightarrow> int \<Rightarrow> int" where
  "sample_count ADEV N m = N - 2 * m"
| "sample_count MDEV N m = N - 3 * m + 1"
| "sample_count HDEV N m = N - 3 * m"
| "sample_count TDEV N m = N - 3 * m + 1"

text \<open>
  Modelled from the spec: what each estimator requires of \<open>N\<close> and \<open>m\<close> in section 4.3
  (ADEV: "requires N - 2m >= 1"; MDEV: "requiring N >= 3m"; HDEV: "requires N >= 3m+1";
  TDEV: "inherits MDEV's sample-count and validity policy").
\<close>

fun requirement :: "estimator_kind \<Rightarrow> int \<Rightarrow> int \<Rightarrow> bool" where
  "requirement ADEV N m = (N - 2 * m \<ge> 1)"
| "requirement MDEV N m = (N \<ge> 3 * m)"
| "requirement HDEV N m = (N \<ge> 3 * m + 1)"
| "requirement TDEV N m = (N \<ge> 3 * m)"

text \<open>
  Modelled from the spec: the DeviationPoint of section 3, the tuple (tau, deviation, error,
  n). The numeric type of deviation and error is left open.
\<close>

record 'v deviation_point =
  dp_tau :: real
  dp_deviation :: 'v
  dp_error :: 'v
  dp_n :: int

text \<open>
  Modelled from the spec: an estimator of section 4.3, \<open>(phase, taus) -> DeviationResult\<close>:
  one point per tau of the tau set whose averaging factor meets the estimator's
  requirement, in the order of the tau set, with \<open>tau = m * tau0\<close>; a tau that fails the
  requirement is left out. The statistic and the error bar (section 4.4,
  \<open>errorBar(kind, n, deviation)\<close>) are parameters.
\<close>

definition estimate ::
  "(int \<Rightarrow> int \<Rightarrow> bool) \<Rightarrow> (int \<Rightarrow> int \<Rightarrow> int) \<Rightarrow> ('x list \<Rightarrow> int \<Rightarrow> 'v) \<Rightarrow> (int \<Rightarrow> 'v \<Rightarrow> 'v)
     \<Rightarrow> real \<Rightarrow> 'x list \<Rightarrow> int list \<Rightarrow> 'v deviation_point list" where
  "estimate valid count statistic errorBar tau0 phase taus =
     (let N = int (length phase) in
      map (\<lambda>m. \<lparr>dp_tau = real_of_int m * tau0,
                dp_deviation = statistic phase m,
                dp_error = errorBar (count N m) (statistic phase m),
                dp_n = count N m\<rparr>)
        (filter (valid N) taus))"

text \<open>
  Modelled from the spec: the four estimators with a stated sample count, each with its
  own requirement and count.
\<close>

definition estimator ::
  "estimator_kind \<Rightarrow> ('x list \<Rightarrow> int \<Rightarrow> 'v) \<Rightarrow> (int \<Rightarrow> 'v \<Rightarrow> 'v)
     \<Rightarrow> real \<Rightarrow> 'x list \<Rightarrow> int list \<Rightarrow> 'v deviation_point list" where
  "estimator k = estimate (requirement k) (sample_count k)"

text \<open>
  Modelled from the spec: an estimator call at the engine's boundary (section 6): a series,
  \<open>tau0\<close> and a tau specification; the tau set is generated from the sample count
  (section 2: Tau Generator, then Deviation Estimators). The series is the phase series
  the estimator receives; the length and finiteness checks that reject a series with
  InvalidSeries belong to the Series Converter (section 4.2) and are not part of the
  estimator.
\<close>

definition estimator_call ::
  "(int \<Rightarrow> int \<Rightarrow> bool) \<Rightarrow> (int \<Rightarrow> int \<Rightarrow> int) \<Rightarrow> ('x list \<Rightarrow> int \<Rightarrow> 'v) \<Rightarrow> (int \<Rightarrow> 'v \<Rightarrow> 'v)
     \<Rightarrow> real \<Rightarrow> 'x list \<Rightarrow> strategy \<Rightarrow> 'v deviation_point list" where
  "estimator_call valid count statistic errorBar tau0 phase strategy =
     estimate valid count statistic errorBar tau0 phase (generate (int (length phase)) strategy)"

text \<open>
  Modelled from the spec: the output of a call (section 6), "four parallel sequences: tau,
  deviation, error, n".
\<close>

definition result_sequences ::
  "'v deviation_point list \<Rightarrow> real list \<times> 'v list \<times> 'v list \<times> int list" where
  "result_sequences r = (map dp_tau r, map dp_deviation r, map dp_error r, map dp_n r)"

text \<open>
  Modelled from the spec: the fatal errors of section 7. InsufficientSamplesAtTau and
  EmptyTauSet are "not an error" there and have no constructor.
\<close>

datatype engine_error = InvalidSeries | UnsupportedDataType




section \<open>Properties of the octave loops\<close>

lemma m_list_loop_length:
  "length (m_list_loop max_m max_tau_points m m_list) \<le> max (length m_list) (nat max_tau_points)"
proof (induction max_m max_tau_points m m_list rule: m_list_loop.induct)
  case (1 max_m max_tau_points m m_list)
  show ?case
  proof (cases "m \<le> max_m \<and> int (length m_list) < max_tau_points")
    case True
    then have "length (m_list_loop max_m max_tau_points (m * 2) (m_list @ [m]))
        \<le> max (length (m_list @ [m])) (nat max_tau_points)"
      using "1.IH" by blast
    moreover have "length (m_list @ [m]) \<le> nat max_tau_points"
      using True by (simp add: Suc_le_eq zless_nat_eq_int_zless)
    ultimately show ?thesis
      using True by (subst m_list_loop.simps) simp
  next
    case False
    then have "m_list_loop max_m max_tau_points m m_list = m_list"
      by (subst m_list_loop.simps) auto
    then show ?thesis
      by simp
  qed
qed

lemma benchmark_m_list_length: "length (benchmark_m_list N 20) \<le> 20"
  using m_list_loop_length [of "N div 4" 20 1 "[]"] by (simp add: benchmark_m_list_def)

lemma m_values_loop_octave_from:
  "0 < m \<Longrightarrow> m_values_loop max_m m m_values = Some (m_values @ octave_from max_m m)"
proof (induction max_m m arbitrary: m_values rule: octave_from.induct)
  case (1 max_m m)
  show ?case
  proof (cases "m \<le> max_m")
    case True
    with "1.prems" have "m_values_loop max_m (m * 2) (m_values @ [m])
        = Some ((m_values @ [m]) @ octave_from max_m (m * 2))"
      using "1.IH" [of "m_values @ [m]"] by simp
    with True "1.prems" show ?thesis
      by (subst m_values_loop.simps, subst octave_from.simps) simp
  next
    case False
    then show ?thesis
      by (subst m_values_loop.simps, subst octave_from.simps) simp
  qed
qed

lemma m_list_loop_empty: "max_m < m \<Longrightarrow> m_list_loop max_m max_tau_points m m_list = m_list"
  by (subst m_list_loop.simps) simp

text \<open>
  The uncapped loop of the reference generators always returns: started at \<open>m = 1\<close> it
  yields the octave sequence.
\<close>

lemma octave_m_values_total: "octave_m_values N = Some (octave_from (N div 10) 1)"
  using m_values_loop_octave_from [of 1 "N div 10" "[]"] by (simp add: octave_m_values_def)

text \<open>
  Claim C1, as the code has it. For \<open>N = 1000\<close> and \<open>max_m = N // 4 = 250\<close> the octave
  loop stops at 128, the last power of two that is at most 250: both the benchmark
  driver's list and the uncapped loop run with \<open>max_m = 250\<close> are
  \<open>[1, 2, 4, 8, 16, 32, 64, 128]\<close>. The value 256 exceeds 250 and is not appended.
\<close>

theorem octave_1000_quarter:
  "benchmark_m_list 1000 20 = [1, 2, 4, 8, 16, 32, 64, 128]
   \<and> (1000::int) div 4 = 250
   \<and> m_values_loop 250 1 [] = Some [1, 2, 4, 8, 16, 32, 64, 128]"
  by (simp add: benchmark_m_list_def m_list_loop.simps m_values_loop.simps)

text \<open>
  Claim C1 as stated fails: the set of averaging factors for \<open>N = 1000\<close> with the
  quarter fraction is not \<open>{1, 2, 4, 8, 16, 32, 64, 128, 256}\<close>.
\<close>

theorem octave_1000_quarter_not_256:
  "set (benchmark_m_list 1000 20) \<noteq> {1, 2, 4, 8, 16, 32, 64, 128, 256}"
proof
  assume "set (benchmark_m_list 1000 20) = {1, 2, 4, 8, 16, 32, 64, 128, 256}"
  then have "256 \<in> set (benchmark_m_list 1000 20)"
    by simp
  then show False
    by (simp add: benchmark_m_list_def m_list_loop.simps)
qed

text \<open>
  Claim C8. With the default \<open>max_tau_points = 20\<close> the benchmark drivers request at most
  20 averaging factors for every input, and the cap does cut the list short: for the
  \<open>5 000 000\<close> samples of the benchmark run, \<open>2^20 = 1048576\<close> satisfies \<open>m \<le> N // 4\<close>
  but is not requested.
\<close>

theorem benchmark_m_list_capped:
  "length (benchmark_allantools_m_list phase_data 20) \<le> 20
   \<and> (\<forall>ms. benchmark_function_m_list datasets 20 = Inr ms \<longrightarrow> length ms \<le> 20)
   \<and> (1048576 \<le> (5000000::int) div 4 \<and> 1048576 \<notin> set (benchmark_m_list 5000000 20)
        \<and> length (benchmark_m_list 5000000 20) = 20)"
proof -
  have "length (benchmark_allantools_m_list phase_data 20) \<le> 20"
    by (simp add: benchmark_allantools_m_list_def benchmark_m_list_length)
  moreover have "\<forall>ms. benchmark_function_m_list datasets 20 = Inr ms \<longrightarrow> length ms \<le> 20"
    by (auto simp: benchmark_function_m_list_def benchmark_m_list_length split: list.splits)
  moreover have "benchmark_m_list 5000000 20 = map (\<lambda>k. 2 ^ k) [0..<20]"
    by code_simp
  then have "1048576 \<notin> set (benchmark_m_list 5000000 20)
      \<and> length (benchmark_m_list 5000000 20) = 20"
    by (simp add: upt_rec)
  ultimately show ?thesis
    by simp
qed

theorem benchmark_m_list_capped_witness:
  "benchmark_function_m_list [replicate 16 (0::int)] 20 = Inr [1, 2, 4]
   \<and> length [1, 2, 4 :: int] \<le> 20"
proof -
  have e: "benchmark_function_m_list [replicate 16 (0::int)] 20 = Inr [1, 2, 4]"
    by (simp add: benchmark_function_m_list_def benchmark_m_list_def m_list_loop.simps)
  from benchmark_m_list_capped [of "[]::int list" "[replicate 16 (0::int)]"] e
  show ?thesis by simp
qed

section \<open>Properties of the reference generators' requests\<close>

lemma compute_allantools_deviations_reference_cases:
  "(f, ts) \<in> set (compute_allantools_deviations_reference taus) \<Longrightarrow>
     (is_tie f \<and> ts = filter (\<lambda>t. t \<le> 50) taus) \<or> (\<not> is_tie f \<and> ts = taus)"
  by (auto simp: compute_allantools_deviations_reference_def tie_taus_def is_tie_def)

lemma compute_allantools_deviations_real_data_cases:
  "(f, ts) \<in> set (compute_allantools_deviations_real_data has_tie has_mtie taus N) \<Longrightarrow>
     (is_tie f \<and> ts = filter (\<lambda>t. t \<le> real_of_int (min 100 (max_tau N div 2))) taus)
     \<or> (\<not> is_tie f \<and> ts = taus)"
  by (auto simp: compute_allantools_deviations_real_data_def test_taus_def is_tie_def
      allantools_functions_def split: if_splits)

text \<open>
  The threshold of the second generator is computed with integer division. On
  integer-valued taus (the script always passes \<open>tau0 = 1.0\<close>) it selects the same taus as
  the bound \<open>min(100, max_tau/2)\<close> with true division.
\<close>

lemma floor_half_bound:
  "real_of_int z \<le> real_of_int (min 100 (k div 2))
     \<longleftrightarrow> real_of_int z \<le> min 100 (real_of_int k / 2)"
proof -
  have "real_of_int z \<le> real_of_int (min 100 (k div 2)) \<longleftrightarrow> z \<le> min 100 (k div 2)"
    by (simp only: of_int_le_iff)
  also have "\<dots> \<longleftrightarrow> z \<le> 100 \<and> 2 * z \<le> k"
    by auto
  also have "\<dots> \<longleftrightarrow> real_of_int z \<le> 100 \<and> 2 * real_of_int z \<le> real_of_int k"
    by (metis of_int_le_iff of_int_mult of_int_numeral)
  also have "\<dots> \<longleftrightarrow> real_of_int z \<le> min 100 (real_of_int k / 2)"
    by auto
  finally show ?thesis .
qed

text \<open>
  Claim C10. In both reference generators every request to TIE or MTIE carries the general
  tau array filtered by an upper bound (50 in the first generator, \<open>min(100, max_tau // 2)\<close>
  in the second), every other estimator receives the general array unchanged, and so each
  TIE/MTIE request is a subsequence, hence a subset, of what any other estimator receives.
\<close>

theorem tie_requests_subset:
  "(\<forall>f ts g us. (f, ts) \<in> set (compute_allantools_deviations_reference taus)
        \<and> (g, us) \<in> set (compute_allantools_deviations_reference taus)
        \<and> is_tie f \<and> \<not> is_tie g
      \<longrightarrow> ts = filter (\<lambda>t. t \<le> 50) taus \<and> us = taus \<and> set ts \<subseteq> set us \<and> subseq ts us)
   \<and> (\<forall>f ts g us. (f, ts) \<in> set (compute_allantools_deviations_real_data has_tie has_mtie taus N)
        \<and> (g, us) \<in> set (compute_allantools_deviations_real_data has_tie has_mtie taus N)
        \<and> is_tie f \<and> \<not> is_tie g
      \<longrightarrow> ts = filter (\<lambda>t. t \<le> real_of_int (min 100 (max_tau N div 2))) taus \<and> us = taus
          \<and> set ts \<subseteq> set us \<and> subseq ts us)"
proof (intro conjI allI impI)
  fix f ts g us
  assume a: "(f, ts) \<in> set (compute_allantools_deviations_reference taus)
        \<and> (g, us) \<in> set (compute_allantools_deviations_reference taus)
        \<and> is_tie f \<and> \<not> is_tie g"
  then have ts: "ts = filter (\<lambda>t. t \<le> 50) taus" and us: "us = taus"
    using compute_allantools_deviations_reference_cases [of f ts taus]
      compute_allantools_deviations_reference_cases [of g us taus]
    by auto
  show "ts = filter (\<lambda>t. t \<le> 50) taus" by (rule ts)
  show "us = taus" by (rule us)
  show "set ts \<subseteq> set us" using ts us by auto
  show "subseq ts us" using ts us by simp
next
  fix f ts g us
  assume a: "(f, ts) \<in> set (compute_allantools_deviations_real_data has_tie has_mtie taus N)
        \<and> (g, us) \<in> set (compute_allantools_deviations_real_data has_tie has_mtie taus N)
        \<and> is_tie f \<and> \<not> is_tie g"
  then have ts: "ts = filter (\<lambda>t. t \<le> real_of_int (min 100 (max_tau N div 2))) taus"
    and us: "us = taus"
    using compute_allantools_deviations_real_data_cases [of f ts has_tie has_mtie taus N]
      compute_allantools_deviations_real_data_cases [of g us has_tie has_mtie taus N]
    by auto
  show "ts = filter (\<lambda>t. t \<le> real_of_int (min 100 (max_tau N div 2))) taus" by (rule ts)
  show "us = taus" by (rule us)
  show "set ts \<subseteq> set us" using ts us by auto
  show "subseq ts us" using ts us by simp
qed

theorem tie_requests_subset_witness:
  "(''tie'', [1, 2, 32]) \<in> set (compute_allantools_deviations_reference [1, 2, 32, 64])
   \<and> (''adev'', [1, 2, 32, 64]) \<in> set (compute_allantools_deviations_reference [1, 2, 32, 64])
   \<and> is_tie ''tie'' \<and> \<not> is_tie ''adev''
   \<and> set [1, 2, 32 :: real] \<subseteq> set [1, 2, 32, 64]
   \<and> (''mtie'', [1, 2]) \<in> set (compute_allantools_deviations_real_data True True [1, 2, 32, 64] 100)
   \<and> (''pdev'', [1, 2, 32, 64])
        \<in> set (compute_allantools_deviations_real_data True True [1, 2, 32, 64] 100)
   \<and> is_tie ''mtie'' \<and> \<not> is_tie ''pdev''
   \<and> set [1, 2 :: real] \<subseteq> set [1, 2, 32, 64]"
proof -
  have a: "(''tie'', [1, 2, 32]) \<in> set (compute_allantools_deviations_reference [1, 2, 32, 64])
      \<and> (''adev'', [1, 2, 32, 64]) \<in> set (compute_allantools_deviations_reference [1, 2, 32, 64])
      \<and> is_tie ''tie'' \<and> \<not> is_tie ''adev''"
    by (simp add: compute_allantools_deviations_reference_def tie_taus_def is_tie_def)
  have b: "(''mtie'', [1, 2])
        \<in> set (compute_allantools_deviations_real_data True True [1, 2, 32, 64] 100)
      \<and> (''pdev'', [1, 2, 32, 64])
        \<in> set (compute_allantools_deviations_real_data True True [1, 2, 32, 64] 100)
      \<and> is_tie ''mtie'' \<and> \<not> is_tie ''pdev''"
    by (simp add: compute_allantools_deviations_real_data_def test_taus_def
        allantools_functions_def is_tie_def max_tau_def)
  from tie_requests_subset [of "[1, 2, 32, 64]" True True 100] a b
  show ?thesis by blast
qed

section \<open>Properties of the file loader\<close>

lemma takeWhile_rev_dropWhile:
  "takeWhile (\<lambda>x. \<not> P x) (rev (dropWhile P (rev xs))) = takeWhile (\<lambda>x. \<not> P x) xs"
proof (induction xs)
  case Nil
  then show ?case by simp
next
  case (Cons x xs)
  show ?case
  proof (cases "\<forall>y\<in>set xs. P y")
    case True
    then have "takeWhile (\<lambda>x. \<not> P x) xs = []"
      by (cases xs) auto
    with True show ?thesis
      by (simp add: dropWhile_append)
  next
    case False
    with Cons show ?thesis
      by (auto simp: dropWhile_append)
  qed
qed

lemma strip_Cons:
  assumes "dropWhile isspace l = c # cs"
  shows "strip l = c # rev (dropWhile isspace (rev cs))"
proof -
  from assms have "\<not> isspace c"
    by (simp add: dropWhile_eq_Cons_conv)
  then show ?thesis
    using assms by (simp add: strip_def dropWhile_append3)
qed

lemma strip_Nil_iff: "strip l = [] \<longleftrightarrow> spec_is_blank l"
proof (cases "dropWhile isspace l")
  case Nil
  have "strip l = []"
    unfolding strip_def Nil by simp
  moreover have "spec_is_blank l"
    using Nil by (simp add: spec_is_blank_def)
  ultimately show ?thesis by simp
next
  case (Cons c cs)
  then have "\<not> spec_is_blank l"
    unfolding spec_is_blank_def using dropWhile_eq_Nil_conv [of isspace l] by auto
  with strip_Cons [OF Cons] show ?thesis by simp
qed

text \<open>
  On a line that is not blank, \<^verbatim>\<open>line.split()\<close> is never empty, so the IndexError branch is
  never taken, and its first element is the first column of the line.
\<close>

lemma split_ws_strip:
  assumes "dropWhile isspace l = c # cs"
  shows "\<exists>rest. split_ws (strip l) = spec_first_column l # rest"
proof -
  from assms have nc: "\<not> isspace c"
    by (simp add: dropWhile_eq_Cons_conv)
  have s: "strip l = c # rev (dropWhile isspace (rev cs))"
    by (rule strip_Cons [OF assms])
  have "takeWhile (\<lambda>x. \<not> isspace x) (strip l)
      = takeWhile (\<lambda>x. \<not> isspace x) (dropWhile isspace l)"
    using takeWhile_rev_dropWhile [of isspace "c # cs"] nc assms
    by (simp add: strip_def)
  moreover have "dropWhile isspace (strip l) = strip l"
    using s nc by simp
  ultimately show ?thesis
    using s by (subst split_ws.simps) (simp add: spec_first_column_def)
qed

lemma load_step_line_value:
  "load_step py_float phase_data l =
     phase_data @ (case spec_line_value py_float l of None \<Rightarrow> [] | Some v \<Rightarrow> [v])"
proof (cases "dropWhile isspace l")
  case Nil
  then have "spec_is_blank l" by (simp add: spec_is_blank_def)
  then show ?thesis
    using strip_Nil_iff [of l] by (simp add: load_step_def spec_line_value_def)
next
  case (Cons c cs)
  then have nb: "\<not> spec_is_blank l"
    unfolding spec_is_blank_def using dropWhile_eq_Nil_conv [of isspace l] by auto
  have s: "strip l = c # rev (dropWhile isspace (rev cs))"
    by (rule strip_Cons [OF Cons])
  obtain rest where sp: "split_ws (strip l) = spec_first_column l # rest"
    using split_ws_strip [OF Cons] by blast
  have com: "spec_is_comment l \<longleftrightarrow> startswith (strip l) ''#'' \<or> startswith (strip l) ''%''"
    using Cons s by (simp add: spec_is_comment_def startswith_def)
  show ?thesis
    using nb s sp com
    by (auto simp: load_step_def spec_line_value_def Let_def split: option.splits)
qed

lemma foldl_load_step:
  "foldl (load_step py_float) acc lines = acc @ List.map_filter (spec_line_value py_float) lines"
proof (induction lines arbitrary: acc)
  case Nil
  then show ?case by (simp add: List.map_filter_simps)
next
  case (Cons l lines)
  then show ?case
    by (simp add: load_step_line_value List.map_filter_simps split: option.splits)
qed

lemma map_filter_Nil_iff: "List.map_filter f xs = [] \<longleftrightarrow> (\<forall>x\<in>set xs. f x = None)"
  by (induction xs) (auto simp: List.map_filter_simps split: option.splits)

lemma spec_is_comment_literal:
  "spec_is_comment (CHR ''#'' # rest) \<and> spec_is_comment (CHR ''%'' # rest)"
  by (simp add: spec_is_comment_def isspace_def)

text \<open>
  Claim C9. The loader returns, in file order, the parsed first column of every line that is
  neither blank nor a comment and whose first column parses; blank lines, lines beginning
  with \<open>#\<close> or \<open>%\<close> and lines whose first column does not parse contribute nothing; and it
  raises ValueError exactly when no line contributes a value.
\<close>

theorem load_phase_data_spec:
  "load_phase_data py_float lines =
     (if \<forall>l\<in>set lines. spec_line_value py_float l = None then Inl ValueError
      else Inr (List.map_filter (spec_line_value py_float) lines))
   \<and> spec_line_value py_float (CHR ''#'' # rest) = None
   \<and> spec_line_value py_float (CHR ''%'' # rest) = None"
  by (simp add: load_phase_data_def foldl_load_step map_filter_Nil_iff
      spec_line_value_def spec_is_comment_literal)

theorem load_phase_data_spec_witness:
  "\<not> (\<forall>l\<in>set [''# tau phase'' @ [CHR 0x0A], [CHR 0x0A], ''  1.5 7'' @ [CHR 0x0A],
                 ''abc 2'' @ [CHR 0x0A], ''% x'', ''2''].
        spec_line_value (\<lambda>s. if s = ''1.5'' then Some (3 / 2 :: real)
                               else if s = ''2'' then Some 2 else None) l = None)
   \<and> load_phase_data (\<lambda>s. if s = ''1.5'' then Some (3 / 2 :: real)
                           else if s = ''2'' then Some 2 else None)
        [''# tau phase'' @ [CHR 0x0A], [CHR 0x0A], ''  1.5 7'' @ [CHR 0x0A],
         ''abc 2'' @ [CHR 0x0A], ''% x'', ''2'']
      = Inr [3 / 2, 2]
   \<and> List.map_filter (spec_line_value (\<lambda>s. if s = ''1.5'' then Some (3 / 2 :: real)
                               else if s = ''2'' then Some 2 else None))
        [''# only a header'', ''   '', ''x 1.5''] = []
   \<and> load_phase_data (\<lambda>s. if s = ''1.5'' then Some (3 / 2 :: real)
                           else if s = ''2'' then Some 2 else None)
        [''# only a header'', ''   '', ''x 1.5'']
      = Inl ValueError"
proof -
  let ?pf = "\<lambda>s. if s = ''1.5'' then Some (3 / 2 :: real) else if s = ''2'' then Some 2 else None"
  let ?good = "[''# tau phase'' @ [CHR 0x0A], [CHR 0x0A], ''  1.5 7'' @ [CHR 0x0A],
                ''abc 2'' @ [CHR 0x0A], ''% x'', ''2'']"
  let ?bad = "[''# only a header'', ''   '', ''x 1.5'']"
  have g: "List.map_filter (spec_line_value ?pf) ?good = [3 / 2, 2]"
    by (simp add: List.map_filter_simps spec_line_value_def spec_is_blank_def
        spec_is_comment_def spec_first_column_def isspace_def)
  then have ng: "\<not> (\<forall>l\<in>set ?good. spec_line_value ?pf l = None)"
    using map_filter_Nil_iff [of "spec_line_value ?pf" ?good] by simp
  have b: "\<forall>l\<in>set ?bad. spec_line_value ?pf l = None"
    by (simp add: spec_line_value_def spec_is_blank_def spec_is_comment_def
        spec_first_column_def isspace_def)
  from load_phase_data_spec [of ?pf ?good] ng g
  have rg: "load_phase_data ?pf ?good = Inr [3 / 2, 2]"
    by simp
  from load_phase_data_spec [of ?pf ?bad] b
  have rb: "load_phase_data ?pf ?bad = Inl ValueError"
    by simp
  from b have mb: "List.map_filter (spec_line_value ?pf) ?bad = []"
    by (simp only: map_filter_Nil_iff)
  from ng rg mb rb show ?thesis
    by blast
qed

section \<open>Properties of the specified engine\<close>

lemma octave_from_lower: "x \<in> set (octave_from max_m m) \<Longrightarrow> m \<le> x"
proof (induction max_m m rule: octave_from.induct)
  case (1 max_m m)
  show ?case
  proof (cases "0 < m \<and> m \<le> max_m")
    case True
    with "1.prems" have "x = m \<or> x \<in> set (octave_from max_m (m * 2))"
      by (subst (asm) octave_from.simps) simp
    then show ?thesis
      using "1.IH" True by auto
  next
    case False
    with "1.prems" show ?thesis
      by (subst (asm) octave_from.simps) simp
  qed
qed

lemma octave_from_strict: "sorted_wrt (<) (octave_from max_m m)"
proof (induction max_m m rule: octave_from.induct)
  case (1 max_m m)
  show ?case
  proof (cases "0 < m \<and> m \<le> max_m")
    case True
    have "\<forall>x\<in>set (octave_from max_m (m * 2)). m < x"
      using octave_from_lower [of _ max_m "m * 2"] True by fastforce
    with True "1.IH" show ?thesis
      by (subst octave_from.simps) simp
  next
    case False
    then have "octave_from max_m m = []"
      by (subst octave_from.simps) auto
    then show ?thesis
      by simp
  qed
qed

lemma upto_strict: "sorted_wrt (<) [i..j]"
  by (simp add: strict_sorted_iff)

lemma sort_remdups_strict: "sorted_wrt (<) (sort (remdups (ms :: int list)))"
  by (simp add: strict_sorted_iff)

text \<open>Every strategy yields a tau set in strictly increasing order.\<close>

lemma generate_strict: "sorted_wrt (<) (generate N strategy)"
  by (cases strategy)
    (simp_all add: generate_def octave_from_strict upto_strict sort_remdups_strict
      sorted_wrt_filter)

lemma estimate_taus:
  "map dp_tau (estimate valid count statistic errorBar tau0 phase taus)
     = map (\<lambda>m. real_of_int m * tau0) (filter (valid (int (length phase))) taus)"
  by (simp add: estimate_def Let_def comp_def)

lemma scaled_strict:
  assumes "0 < tau0" and "sorted_wrt (<) (ms :: int list)"
  shows "sorted_wrt (<) (map (\<lambda>m. real_of_int m * tau0) ms)"
  using assms by (simp add: sorted_wrt_map sorted_wrt_mono_rel [of ms "(<)"])

text \<open>
  For each of the four estimators the requirement stated with its formula is the same
  condition as "the sample count is at least 1".
\<close>

lemma requirement_iff: "requirement k N m \<longleftrightarrow> 1 \<le> sample_count k N m"
  by (cases k) auto

lemma benchmark_m_list_short: "N < 4 \<Longrightarrow> benchmark_m_list N max_tau_points = []"
  by (simp add: benchmark_m_list_def m_list_loop_empty)

text \<open>
  The requirement alone would let ADEV report a point for three samples and \<open>m = 1\<close>
  (\<open>N - 2m = 1\<close>); it is the generator's rule for \<open>N < 4\<close> that empties the result.
\<close>

lemma adev_three_samples:
  "map dp_n (estimator ADEV statistic errorBar 1 [x0, x1, x2] [1]) = [1]"
  by (simp add: estimator_def estimate_def)

text \<open>
  At the boundary call the same request gives no point, although ADEV's sample count for
  three samples and \<open>m = 1\<close> is 1.
\<close>

lemma adev_three_samples_call:
  "estimator_call (requirement ADEV) (sample_count ADEV) statistic errorBar 1 [x0, x1, x2]
     (Explicit [1]) = []
   \<and> sample_count ADEV (int (length [x0, x1, x2])) 1 = 1"
  by (simp add: estimator_call_def generate_def estimate_def)

text \<open>TDEV reports a point at exactly the taus where MDEV does, with the same counts.\<close>

lemma tdev_emits_as_mdev:
  "map dp_tau (estimator TDEV statistic errorBar tau0 phase taus)
     = map dp_tau (estimator MDEV statistic' errorBar' tau0 phase taus)
   \<and> map dp_n (estimator TDEV statistic errorBar tau0 phase taus)
     = map dp_n (estimator MDEV statistic' errorBar' tau0 phase taus)"
proof -
  have "requirement TDEV = requirement MDEV"
    by (intro ext) simp
  moreover have "sample_count TDEV = sample_count MDEV"
    by (intro ext) simp
  ultimately show ?thesis
    by (simp add: estimator_def estimate_def Let_def comp_def)
qed

text \<open>
  Claim C2. For a series of fewer than four samples the tau generator returns the empty
  tau set under every strategy, so every estimator call returns the empty result: a value,
  not an error, with no point in it. The benchmark driver's own octave list is empty for
  such a series too.
\<close>

theorem short_series_empty_result:
  assumes "length phase < 4"
  shows "generate (int (length phase)) strategy = []
         \<and> estimator_call valid count statistic errorBar tau0 phase strategy = []
         \<and> benchmark_allantools_m_list phase max_tau_points = []"
  using assms
  by (simp add: estimator_call_def generate_def estimate_def benchmark_allantools_m_list_def
      benchmark_m_list_short)

theorem short_series_empty_result_witness:
  "length [0, 0, 0 :: real] < 4
   \<and> estimator_call (requirement ADEV) (sample_count ADEV) (\<lambda>x m. 0 :: real) (\<lambda>n d. d)
        1 [0, 0, 0 :: real] (Explicit [1]) = []
   \<and> benchmark_allantools_m_list [0, 0, 0 :: real] 20 = []"
proof -
  have h: "length [0, 0, 0 :: real] < 4" by simp
  from short_series_empty_result [OF h, of "Explicit [1]" "requirement ADEV" "sample_count ADEV"
      "\<lambda>x m. 0 :: real" "\<lambda>n d. d" 1 20] h
  show ?thesis by simp
qed

text \<open>
  Claim C5. With a positive \<open>tau0\<close>, every estimator call returns four sequences (tau,
  deviation, error, n) of one common length, and the tau sequence is strictly increasing.
\<close>

theorem estimator_call_sequences:
  assumes "0 < tau0"
    and "result_sequences (estimator_call valid count statistic errorBar tau0 phase strategy)
           = (taus, devs, errs, ns)"
  shows "length devs = length taus \<and> length errs = length taus \<and> length ns = length taus
         \<and> sorted_wrt (<) taus"
proof -
  let ?r = "estimator_call valid count statistic errorBar tau0 phase strategy"
  from assms(2) have t: "taus = map dp_tau ?r" and d: "devs = map dp_deviation ?r"
    and e: "errs = map dp_error ?r" and n: "ns = map dp_n ?r"
    by (simp_all add: result_sequences_def)
  have "sorted_wrt (<)
      (filter (valid (int (length phase))) (generate (int (length phase)) strategy))"
    by (simp add: sorted_wrt_filter generate_strict)
  then have "sorted_wrt (<) taus"
    unfolding t estimator_call_def estimate_taus using assms(1) by (rule scaled_strict [rotated])
  with t d e n show ?thesis by simp
qed

theorem estimator_call_sequences_witness:
  "0 < (1::real)
   \<and> result_sequences (estimator_call (requirement ADEV) (sample_count ADEV)
        (\<lambda>x m. 0 :: real) (\<lambda>n d. d) 1 (replicate 16 (0::real)) (Octave (1 / 4)))
      = ([1, 2, 4], [0, 0, 0], [0, 0, 0], [14, 12, 8])
   \<and> length [0, 0, 0 :: real] = length [1, 2, 4 :: real]
   \<and> length [14, 12, 8 :: int] = length [1, 2, 4 :: real]
   \<and> sorted_wrt (<) [1, 2, 4 :: real]"
proof -
  have h: "0 < (1::real)" by simp
  have r: "result_sequences (estimator_call (requirement ADEV) (sample_count ADEV)
        (\<lambda>x m. 0 :: real) (\<lambda>n d. d) 1 (replicate 16 (0::real)) (Octave (1 / 4)))
      = ([1, 2, 4], [0, 0, 0], [0, 0, 0], [14, 12, 8])"
    by (simp add: result_sequences_def estimator_call_def estimate_def generate_def
        max_m_of_def octave_from.simps)
  from estimator_call_sequences [OF h r] h r show ?thesis
    by simp
qed

section \<open>The explicit tau lists of the reference generators\<close>






section \<open>Phase and frequency conversion\<close>




end
